theory Spec2Isabelle
  imports Complex_Main "HOL-Library.AList"
begin

section \<open>The Python operations used by \<open>predict\<close>\<close>

text \<open>
  The handler \<open>predict\<close> of \<open>app.py\<close> relies on a handful of operations of the Python
  runtime: \<open>int(str)\<close>, \<open>float(str)\<close>, the comparison \<open>value <= 0\<close>, \<open>str.replace\<close>,
  \<open>str.title\<close> and the format specification \<open>,.2f\<close>. They are modelled here on strings of
  7-bit characters; a character outside ASCII is treated as an ordinary character that is
  neither a digit nor white space (Python additionally accepts Unicode white space and
  Unicode decimal digits in \<open>int\<close> and \<open>float\<close>).
\<close>

subsection \<open>Floating-point values\<close>

text \<open>
  A Python \<open>float\<close> is a finite number, an infinity or a NaN. Finite values are kept as
  the rational they denote. Conversion of a decimal to a float keeps the two effects of
  rounding that change a comparison with zero or the class of the value: magnitudes of at
  most \<open>2^-1075\<close> become zero and magnitudes of at least \<open>2^1024 - 2^970\<close> become infinite.
  The rounding of the mantissa to 53 bits and the sign of a zero are not modelled.
\<close>

datatype pyfloat = Fin rat | PosInf | NegInf | NaN

definition to_double :: "rat \<Rightarrow> pyfloat" where
  "to_double x =
     (if \<bar>x\<bar> \<le> 1 / 2 ^ 1075 then Fin 0
      else if 2 ^ 1024 - 2 ^ 970 \<le> \<bar>x\<bar> then (if 0 < x then PosInf else NegInf)
      else Fin x)"

text \<open>\<open>x <= 0\<close> on floats: every comparison with a NaN is false.\<close>

fun float_le_zero :: "pyfloat \<Rightarrow> bool" where
  "float_le_zero (Fin x) = (x \<le> 0)"
| "float_le_zero PosInf = False"
| "float_le_zero NegInf = True"
| "float_le_zero NaN = False"

subsection \<open>Characters and digit strings\<close>

definition is_space :: "char \<Rightarrow> bool" where
  "is_space c = (c \<in> set [CHR 0x09, CHR 0x0A, CHR 0x0B, CHR 0x0C, CHR 0x0D, CHR '' ''])"

definition is_digit :: "char \<Rightarrow> bool" where
  "is_digit c = (c \<in> set ''0123456789'')"

definition digit_val :: "char \<Rightarrow> nat" where
  "digit_val c = of_char c - 48"

definition nat_of_digits :: "string \<Rightarrow> nat" where
  "nat_of_digits ds = foldl (\<lambda>a c. 10 * a + digit_val c) 0 ds"

definition strip :: "string \<Rightarrow> string" where
  "strip s = rev (dropWhile is_space (rev (dropWhile is_space s)))"

text \<open>
  An underscore in a numeric literal must stand between two digits. The flag says
  whether the previous character was a digit.
\<close>

fun underscores_ok :: "bool \<Rightarrow> string \<Rightarrow> bool" where
  "underscores_ok prev [] = True"
| "underscores_ok prev (c # cs) =
     (if c = CHR ''_''
      then prev \<and> (case cs of [] \<Rightarrow> False | d # _ \<Rightarrow> is_digit d) \<and> underscores_ok False cs
      else underscores_ok (is_digit c) cs)"

fun split_sign :: "string \<Rightarrow> bool \<times> string" where
  "split_sign [] = (False, [])"
| "split_sign (c # cs) =
     (if c = CHR ''-'' then (True, cs)
      else if c = CHR ''+'' then (False, cs)
      else (False, c # cs))"

subsection \<open>\<open>int(str)\<close>\<close>

text \<open>
  \<open>int(s)\<close> in base 10: surrounding white space is dropped, then an optional sign and a
  non-empty run of digits, single underscores allowed between digits. Anything else raises
  \<open>ValueError\<close>, which is the value \<open>None\<close> here. (The limit on the number of digits that
  recent interpreters apply also raises \<open>ValueError\<close>; it is not modelled.)
\<close>

definition int_py :: "string \<Rightarrow> int option" where
  "int_py s =
     (let (neg, body) = split_sign (strip s);
          ds = filter (\<lambda>c. c \<noteq> CHR ''_'') body
      in if ds \<noteq> [] \<and> list_all is_digit ds \<and> underscores_ok False body
         then Some (if neg then - int (nat_of_digits ds) else int (nat_of_digits ds))
         else None)"

subsection \<open>\<open>float(str)\<close>\<close>

definition to_lower :: "char \<Rightarrow> char" where
  "to_lower c =
     (case map_of (zip ''ABCDEFGHIJKLMNOPQRSTUVWXYZ'' ''abcdefghijklmnopqrstuvwxyz'') c of
        None \<Rightarrow> c | Some l \<Rightarrow> l)"

definition to_upper :: "char \<Rightarrow> char" where
  "to_upper c =
     (case map_of (zip ''abcdefghijklmnopqrstuvwxyz'' ''ABCDEFGHIJKLMNOPQRSTUVWXYZ'') c of
        None \<Rightarrow> c | Some u \<Rightarrow> u)"

text \<open>
  The exponent part of a decimal literal: nothing, or \<open>e\<close>/\<open>E\<close>, an optional sign and a
  non-empty run of digits.
\<close>

definition parse_exponent :: "string \<Rightarrow> int option" where
  "parse_exponent r =
     (case r of
        [] \<Rightarrow> Some 0
      | c # cs \<Rightarrow>
          if c = CHR ''e'' \<or> c = CHR ''E''
          then (let (neg, ds) = split_sign cs
                in if ds \<noteq> [] \<and> list_all is_digit ds
                   then Some (if neg then - int (nat_of_digits ds) else int (nat_of_digits ds))
                   else None)
          else None)"

definition pow10 :: "int \<Rightarrow> rat" where
  "pow10 e = (if 0 \<le> e then 10 ^ nat e else 1 / 10 ^ nat (- e))"

text \<open>
  A decimal literal without sign: digits, an optional point with further digits, at least
  one digit in all, then the exponent part. The result is the exact rational value.
\<close>

definition parse_decimal :: "string \<Rightarrow> rat option" where
  "parse_decimal body =
     (let ip = takeWhile is_digit body;
          r1 = dropWhile is_digit body;
          (fp, r2) = (case r1 of
                        [] \<Rightarrow> ([], [])
                      | c # cs \<Rightarrow> if c = CHR ''.''
                                  then (takeWhile is_digit cs, dropWhile is_digit cs)
                                  else ([], c # cs))
      in if ip = [] \<and> fp = [] then None
         else (case parse_exponent r2 of
                 None \<Rightarrow> None
               | Some e \<Rightarrow>
                   Some (of_nat (nat_of_digits (ip @ fp)) * pow10 (e - int (length fp)))))"

text \<open>
  \<open>float(s)\<close>: surrounding white space is dropped, underscores are checked and removed,
  then an optional sign followed by \<open>inf\<close>, \<open>infinity\<close> or \<open>nan\<close> in any case, or by a
  decimal literal. Anything else raises \<open>ValueError\<close> (\<open>None\<close>).
\<close>

definition float_py :: "string \<Rightarrow> pyfloat option" where
  "float_py s =
     (let t = strip s
      in if \<not> underscores_ok False t then None
         else (let (neg, body) = split_sign (filter (\<lambda>c. c \<noteq> CHR ''_'') t);
                   low = map to_lower body
               in if low = ''inf'' \<or> low = ''infinity'' then Some (if neg then NegInf else PosInf)
                  else if low = ''nan'' then Some NaN
                  else (case parse_decimal body of
                          None \<Rightarrow> None
                        | Some q \<Rightarrow> Some (to_double (if neg then - q else q)))))"

subsection \<open>\<open>str.replace\<close> and \<open>str.title\<close>\<close>

text \<open>
  \<open>s.replace(old, new)\<close> replaces the occurrences of \<open>old\<close> from the left, without
  overlap. With an empty \<open>old\<close>, \<open>new\<close> is put before every character and at the end.
\<close>

function replace_py :: "string \<Rightarrow> string \<Rightarrow> string \<Rightarrow> string" where
  "replace_py old new [] = (if old = [] then new else [])"
| "replace_py old new (c # cs) =
     (if old = [] then new @ c # replace_py old new cs
      else if take (length old) (c # cs) = old
      then new @ replace_py old new (drop (length old) (c # cs))
      else c # replace_py old new cs)"
  by pat_completeness auto
termination
  by (relation "measure (\<lambda>(old, new, s). length s)") auto

text \<open>
  \<open>s.title()\<close> on ASCII text: a letter that follows a letter is put in lower case, any
  other letter in upper case. The flag says whether the previous character was a letter.
  The handler applies it to a validated city identifier only.
\<close>

definition is_lower :: "char \<Rightarrow> bool" where
  "is_lower c = (c \<in> set ''abcdefghijklmnopqrstuvwxyz'')"

definition is_upper :: "char \<Rightarrow> bool" where
  "is_upper c = (c \<in> set ''ABCDEFGHIJKLMNOPQRSTUVWXYZ'')"

fun title_from :: "bool \<Rightarrow> string \<Rightarrow> string" where
  "title_from prev [] = []"
| "title_from prev (c # cs) =
     (if is_lower c then (if prev then c else to_upper c) # title_from True cs
      else if is_upper c then (if prev then to_lower c else c) # title_from True cs
      else c # title_from False cs)"

definition title :: "string \<Rightarrow> string" where
  "title s = title_from False s"

subsection \<open>The format specification \<open>,.2f\<close>\<close>

definition round_half_even :: "rat \<Rightarrow> int" where
  "round_half_even x =
     (let f = \<lfloor>x\<rfloor>; d = x - of_int f
      in if d < 1 / 2 then f
         else if 1 / 2 < d then f + 1
         else if even f then f else f + 1)"

definition digit_char :: "nat \<Rightarrow> char" where
  "digit_char d = ''0123456789'' ! d"

function digits_of :: "nat \<Rightarrow> string" where
  "digits_of n = (if n < 10 then [digit_char n] else digits_of (n div 10) @ [digit_char (n mod 10)])"
  by pat_completeness auto
termination
  by (relation "measure id") auto

declare digits_of.simps [simp del]

text \<open>A comma after every third digit, counted from the right; the argument is reversed.\<close>

fun group_rev :: "string \<Rightarrow> string" where
  "group_rev (a # b # c # d # r) = a # b # c # CHR '','' # group_rev (d # r)"
| "group_rev xs = xs"

definition group_thousands :: "string \<Rightarrow> string" where
  "group_thousands s = rev (group_rev (rev s))"

text \<open>
  \<open>f"{x:,.2f}"\<close>: the value is rounded to hundredths, ties to even, on its exact value;
  a negative value keeps its sign also when it rounds to zero.
\<close>

fun format_price :: "pyfloat \<Rightarrow> string" where
  "format_price (Fin x) =
     (let n = nat (round_half_even (\<bar>x\<bar> * 100))
      in (if x < 0 then ''-'' else '''') @ group_thousands (digits_of (n div 100)) @ ''.''
         @ [digit_char (n mod 100 div 10), digit_char (n mod 10)])"
| "format_price PosInf = ''inf''"
| "format_price NegInf = ''-inf''"
| "format_price NaN = ''nan''"

section \<open>The request handler \<open>predict\<close>\<close>

subsection \<open>Data\<close>

text \<open>
  \<open>request.form\<close> maps field names to strings; \<open>form.get(k)\<close> is \<open>None\<close> for a missing
  key. The dict \<open>data\<close> of the handler has six fixed keys and is a record here; the dict
  \<open>numeric_data\<close> has four.
\<close>

type_synonym form = "string \<rightharpoonup> string"

record data =
  city :: "string option"
  location :: "string option"
  bedrooms :: "string option"
  bathrooms :: "string option"
  floor_area :: "string option"
  floor_no :: "string option"

record numeric_data =
  num_bedrooms :: int
  num_bathrooms :: int
  num_floor_area :: pyfloat
  num_floor_no :: int

text \<open>
  A cell of the one-row data frame is an integer, a float or a string; the row is the list
  of its columns, in order, each with its name. A dict with insertion order is the same
  kind of list, with \<^const>\<open>AList.update\<close> as assignment to a key.
\<close>

datatype cell = IntC int | FloatC pyfloat | StrC string

type_synonym row = "(string \<times> cell) list"

text \<open>
  The exceptions that can reach the handler's \<open>except Exception\<close>: a missing column, an
  empty prediction array, and whatever a collaborator raises (named by its text).
\<close>

datatype exn = KeyError string | IndexError | Raised string

text \<open>
  The two collaborators are loaded once at start-up and only read afterwards: the encoder
  receives the \<open>Location\<close> cell and returns its encoding or raises; the model receives the
  row and returns the array of predictions or raises.
\<close>

type_synonym encoder = "cell \<Rightarrow> exn + pyfloat"
type_synonym model = "row \<Rightarrow> exn + pyfloat list"

text \<open>
  What a request leaves behind: the arguments of the calls made to the encoder and to the
  model, and the exceptions printed by the handler, oldest first.
\<close>

record state =
  encoder_calls :: "cell list"
  model_calls :: "row list"
  printed :: "exn list"

text \<open>The context handed to \<open>prediction.html\<close>, and the two pages the handler renders.\<close>

record page =
  page_city :: string
  page_location :: string
  page_bedrooms :: int
  page_bathrooms :: int
  page_floor_area :: pyfloat
  page_floor_no :: int
  predicted_price :: string

datatype response = Home string | Prediction page

text \<open>
  The five places where the handler renders the home page with a message: the four early
  returns of the validation (lines 66, 71, 89 and 85) and the \<open>except Exception\<close> clause
  (line 134), each with the text it shows.
\<close>

datatype failure = MissingField | InvalidCity | InvalidNumber | OutOfRange | PredictionFailed

fun message :: "failure \<Rightarrow> string" where
  "message MissingField = ''Please fill out all fields.''"
| "message InvalidCity = ''Invalid city selected.''"
| "message InvalidNumber = ''Invalid numeric input. Please check your numbers.''"
| "message OutOfRange = ''All numeric values must be greater than 0.''"
| "message PredictionFailed = ''An error occurred during prediction. Please try again.''"

subsection \<open>Validation (lines 54 to 90)\<close>

definition VALID_CITIES :: "string list" where
  "VALID_CITIES =
     [''City_chattogram'', ''City_cumilla'', ''City_dhaka'', ''City_gazipur'',
      ''City_narayanganj-city'']"

definition form_data :: "form \<Rightarrow> data" where
  "form_data f =
     \<lparr> city = f ''City'', location = f ''Location'', bedrooms = f ''Bedrooms'',
       bathrooms = f ''Bathrooms'', floor_area = f ''Floor_area'', floor_no = f ''Floor_no'' \<rparr>"

definition data_values :: "data \<Rightarrow> string option list" where
  "data_values d = [city d, location d, bedrooms d, bathrooms d, floor_area d, floor_no d]"

text \<open>Truth value of \<open>None\<close> and of a string: only \<open>None\<close> and the empty string are false.\<close>

fun truthy :: "string option \<Rightarrow> bool" where
  "truthy None = False"
| "truthy (Some s) = (s \<noteq> [])"

text \<open>
  \<open>d[k]\<close> for a key whose value passed the presence check. The value is never \<open>None\<close>
  where the handler reads it; the empty string stands for that case to keep the function
  total.
\<close>

fun str_value :: "string option \<Rightarrow> string" where
  "str_value None = []"
| "str_value (Some s) = s"

text \<open>
  The dict display of \<open>numeric_data\<close>: the four conversions in order; the first
  \<open>ValueError\<close> leaves the display.
\<close>

definition convert_numeric :: "data \<Rightarrow> numeric_data option" where
  "convert_numeric d =
     (case int_py (str_value (bedrooms d)) of
        None \<Rightarrow> None
      | Some b \<Rightarrow>
     (case int_py (str_value (bathrooms d)) of
        None \<Rightarrow> None
      | Some t \<Rightarrow>
     (case float_py (str_value (floor_area d)) of
        None \<Rightarrow> None
      | Some a \<Rightarrow>
     (case int_py (str_value (floor_no d)) of
        None \<Rightarrow> None
      | Some n \<Rightarrow>
          Some \<lparr> num_bedrooms = b, num_bathrooms = t, num_floor_area = a, num_floor_no = n \<rparr>))))"

definition any_not_positive :: "numeric_data \<Rightarrow> bool" where
  "any_not_positive nd =
     (num_bedrooms nd \<le> 0 \<or> num_bathrooms nd \<le> 0 \<or> float_le_zero (num_floor_area nd)
      \<or> num_floor_no nd \<le> 0)"

text \<open>
  The validation part of the handler: the first failing check returns; otherwise the
  converted numbers go on.
\<close>

definition validate :: "data \<Rightarrow> failure + numeric_data" where
  "validate d =
     (if \<not> list_all truthy (data_values d) then Inl MissingField
      else if str_value (city d) \<notin> set VALID_CITIES then Inl InvalidCity
      else (case convert_numeric d of
              None \<Rightarrow> Inl InvalidNumber
            | Some nd \<Rightarrow> if any_not_positive nd then Inl OutOfRange else Inr nd))"

subsection \<open>Feature assembly (lines 92 to 112)\<close>

definition city_features :: "string \<Rightarrow> row" where
  "city_features c = map (\<lambda>k. (k, IntC (if k = c then 1 else 0))) VALID_CITIES"

definition input_data :: "data \<Rightarrow> numeric_data \<Rightarrow> row" where
  "input_data d nd =
     AList.update ''Floor_no'' (IntC (num_floor_no nd))
      (AList.update ''Floor_area'' (FloatC (num_floor_area nd))
        (AList.update ''Bathrooms'' (IntC (num_bathrooms nd))
          (AList.update ''Bedrooms'' (IntC (num_bedrooms nd))
            (AList.update ''Location'' (StrC (str_value (location d)))
              (city_features (str_value (city d)))))))"

definition column_order :: "string list" where
  "column_order =
     [''Bedrooms'', ''Bathrooms'', ''Floor_no'', ''Floor_area'', ''Location'',
      ''City_chattogram'', ''City_cumilla'', ''City_dhaka'', ''City_gazipur'',
      ''City_narayanganj-city'']"

text \<open>
  \<open>df[names]\<close>: the named columns in the order given; a name that is not a column raises
  \<open>KeyError\<close>. Columns that are not named are left out.
\<close>

fun select_columns :: "string list \<Rightarrow> row \<Rightarrow> exn + row" where
  "select_columns [] r = Inr []"
| "select_columns (c # cs) r =
     (case map_of r c of
        None \<Rightarrow> Inl (KeyError c)
      | Some v \<Rightarrow>
          (case select_columns cs r of
             Inl e \<Rightarrow> Inl e
           | Inr rest \<Rightarrow> Inr ((c, v) # rest)))"

subsection \<open>Encoding, inference and rendering (lines 114 to 135)\<close>

text \<open>
  Line 115 assigns \<open>target_encoder.transform\<close> of the \<open>Location\<close> column to that
  column: the call is recorded, and its result replaces the cell in place.
\<close>

definition encode_location :: "encoder \<Rightarrow> row \<Rightarrow> state \<Rightarrow> (exn + row) \<times> state" where
  "encode_location enc df s =
     (case map_of df ''Location'' of
        None \<Rightarrow> (Inl (KeyError ''Location''), s)
      | Some l \<Rightarrow>
          (let s' = s\<lparr>encoder_calls := encoder_calls s @ [l]\<rparr>
           in case enc l of
                Inl e \<Rightarrow> (Inl e, s')
              | Inr v \<Rightarrow> (Inr (AList.update ''Location'' (FloatC v) df), s')))"

text \<open>\<open>prediction = model.predict(input_df)\<close>, then \<open>prediction[0]\<close>.\<close>

definition infer :: "model \<Rightarrow> row \<Rightarrow> state \<Rightarrow> (exn + pyfloat) \<times> state" where
  "infer mdl df s =
     (let s' = s\<lparr>model_calls := model_calls s @ [df]\<rparr>
      in case mdl df of
           Inl e \<Rightarrow> (Inl e, s')
         | Inr [] \<Rightarrow> (Inl IndexError, s')
         | Inr (p # _) \<Rightarrow> (Inr p, s'))"

definition prediction_page :: "data \<Rightarrow> numeric_data \<Rightarrow> pyfloat \<Rightarrow> page" where
  "prediction_page d nd p =
     \<lparr> page_city = title (replace_py ''City_'' '''' (str_value (city d))),
       page_location = str_value (location d),
       page_bedrooms = num_bedrooms nd,
       page_bathrooms = num_bathrooms nd,
       page_floor_area = num_floor_area nd,
       page_floor_no = num_floor_no nd,
       predicted_price = format_price p \<rparr>"

text \<open>
  Lines 105 to 119, from the dict \<open>input_data\<close> to the predicted value: the columns are
  arranged, the location is encoded, the model is called. An exception ends the
  statements; the state reached is kept.
\<close>

definition run_frame :: "encoder \<Rightarrow> model \<Rightarrow> row \<Rightarrow> state \<Rightarrow> (exn + pyfloat) \<times> state" where
  "run_frame enc mdl inp s =
     (case select_columns column_order inp of
        Inl e \<Rightarrow> (Inl e, s)
      | Inr df \<Rightarrow>
          (case encode_location enc df s of
             (Inl e, s1) \<Rightarrow> (Inl e, s1)
           | (Inr df', s1) \<Rightarrow> infer mdl df' s1))"

text \<open>The statements after validation, up to the context of the result page.\<close>

definition run_model ::
  "encoder \<Rightarrow> model \<Rightarrow> data \<Rightarrow> numeric_data \<Rightarrow> state \<Rightarrow> (exn + page) \<times> state" where
  "run_model enc mdl d nd s =
     (case run_frame enc mdl (input_data d nd) s of
        (Inl e, s') \<Rightarrow> (Inl e, s')
      | (Inr p, s') \<Rightarrow> (Inr (prediction_page d nd p), s'))"

text \<open>
  The handler. The \<open>except Exception\<close> clause prints the exception and renders the home
  page with its one message.
\<close>

definition predict :: "encoder \<Rightarrow> model \<Rightarrow> form \<Rightarrow> state \<Rightarrow> response \<times> state" where
  "predict enc mdl f s =
     (let d = form_data f
      in case validate d of
           Inl k \<Rightarrow> (Home (message k), s)
         | Inr nd \<Rightarrow>
             (case run_model enc mdl d nd s of
                (Inl e, s') \<Rightarrow>
                  (Home (message PredictionFailed), s'\<lparr>printed := printed s' @ [e]\<rparr>)
              | (Inr pg, s') \<Rightarrow> (Prediction pg, s')))"

section \<open>Vocabulary of the properties\<close>

text \<open>
  The presence check, said on the form itself: every one of the six keys has a value and
  that value is not the empty string.
\<close>

definition field_names :: "string list" where
  "field_names = [''City'', ''Location'', ''Bedrooms'', ''Bathrooms'', ''Floor_area'', ''Floor_no'']"

definition present :: "form \<Rightarrow> string \<Rightarrow> bool" where
  "present f k = (case f k of None \<Rightarrow> False | Some v \<Rightarrow> v \<noteq> [])"

definition all_present :: "form \<Rightarrow> bool" where
  "all_present f = list_all (present f) field_names"

text \<open>
  A request for a flat in Dhaka, an encoder that answers 7.0 and a model that answers
  4500000.0, collaborators that raise, and the state before any request.
\<close>

definition dhaka_form :: form where
  "dhaka_form =
     map_of [(''City'', ''City_dhaka''), (''Location'', ''Mirpur''), (''Bedrooms'', ''3''),
             (''Bathrooms'', ''2''), (''Floor_area'', ''1200.5''), (''Floor_no'', ''4'')]"

definition stub_encoder :: encoder where
  "stub_encoder l = Inr (Fin 7)"

definition stub_model :: model where
  "stub_model df = Inr [Fin 4500000]"



definition idle :: state where
  "idle = \<lparr> encoder_calls = [], model_calls = [], printed = [] \<rparr>"



section \<open>Evaluation and structure of the handler\<close>

lemmas parse_defs =
  int_py_def float_py_def strip_def is_space_def is_digit_def nat_of_digits_def digit_val_def
  parse_decimal_def parse_exponent_def pow10_def to_double_def to_lower_def

lemmas form_eval =
  all_present_def field_names_def present_def dhaka_form_def VALID_CITIES_def

lemma form_data_simps:
  "city (form_data f) = f ''City''" "location (form_data f) = f ''Location''"
  "bedrooms (form_data f) = f ''Bedrooms''" "bathrooms (form_data f) = f ''Bathrooms''"
  "floor_area (form_data f) = f ''Floor_area''" "floor_no (form_data f) = f ''Floor_no''"
  by (simp_all add: form_data_def)

lemma present_truthy: "present f k = truthy (f k)"
  by (cases "f k") (simp_all add: present_def)

lemma all_present_truthy: "all_present f = list_all truthy (data_values (form_data f))"
  by (simp add: all_present_def field_names_def data_values_def form_data_simps present_truthy)

lemma convert_numeric_form:
  "convert_numeric (form_data f) =
     (case int_py (str_value (f ''Bedrooms'')) of
        None \<Rightarrow> None
      | Some b \<Rightarrow>
     (case int_py (str_value (f ''Bathrooms'')) of
        None \<Rightarrow> None
      | Some t \<Rightarrow>
     (case float_py (str_value (f ''Floor_area'')) of
        None \<Rightarrow> None
      | Some a \<Rightarrow>
     (case int_py (str_value (f ''Floor_no'')) of
        None \<Rightarrow> None
      | Some n \<Rightarrow>
          Some \<lparr> num_bedrooms = b, num_bathrooms = t, num_floor_area = a, num_floor_no = n \<rparr>))))"
  by (simp add: convert_numeric_def form_data_simps split: option.splits)

lemma validate_form:
  "validate (form_data f) =
     (if \<not> all_present f then Inl MissingField
      else if str_value (f ''City'') \<notin> set VALID_CITIES then Inl InvalidCity
      else (case convert_numeric (form_data f) of
              None \<Rightarrow> Inl InvalidNumber
            | Some nd \<Rightarrow> if any_not_positive nd then Inl OutOfRange else Inr nd))"
  by (simp add: validate_def all_present_truthy form_data_simps)

lemma validate_Inr:
  assumes "validate d = Inr nd"
  shows "list_all truthy (data_values d)" and "str_value (city d) \<in> set VALID_CITIES"
    and "convert_numeric d = Some nd" and "\<not> any_not_positive nd"
  using assms by (auto simp: validate_def split: if_splits option.splits)

lemma validate_dhaka:
  "validate (form_data dhaka_form) =
     Inr \<lparr> num_bedrooms = 3, num_bathrooms = 2, num_floor_area = Fin (2401 / 2), num_floor_no = 4 \<rparr>"
  by (simp add: validate_def form_data_def dhaka_form_def data_values_def VALID_CITIES_def
      convert_numeric_def any_not_positive_def parse_defs)

lemma one_hot_sum:
  "c \<in> set VALID_CITIES \<Longrightarrow> (\<Sum>k\<leftarrow>VALID_CITIES. if k = c then (1::int) else 0) = 1"
  by (auto simp: VALID_CITIES_def)

lemma select_input_data:
  "select_columns column_order (input_data d nd) =
     Inr [(''Bedrooms'', IntC (num_bedrooms nd)), (''Bathrooms'', IntC (num_bathrooms nd)),
          (''Floor_no'', IntC (num_floor_no nd)), (''Floor_area'', FloatC (num_floor_area nd)),
          (''Location'', StrC (str_value (location d))),
          (''City_chattogram'', IntC (if ''City_chattogram'' = str_value (city d) then 1 else 0)),
          (''City_cumilla'', IntC (if ''City_cumilla'' = str_value (city d) then 1 else 0)),
          (''City_dhaka'', IntC (if ''City_dhaka'' = str_value (city d) then 1 else 0)),
          (''City_gazipur'', IntC (if ''City_gazipur'' = str_value (city d) then 1 else 0)),
          (''City_narayanganj-city'',
             IntC (if ''City_narayanganj-city'' = str_value (city d) then 1 else 0))]"
  by (simp add: column_order_def input_data_def city_features_def VALID_CITIES_def)

lemma run_frame_input_data:
  "run_frame enc mdl (input_data d nd) s =
     (case enc (StrC (str_value (location d))) of
        Inl e \<Rightarrow> (Inl e, s\<lparr>encoder_calls := encoder_calls s @ [StrC (str_value (location d))]\<rparr>)
      | Inr v \<Rightarrow>
          infer mdl
            [(''Bedrooms'', IntC (num_bedrooms nd)), (''Bathrooms'', IntC (num_bathrooms nd)),
             (''Floor_no'', IntC (num_floor_no nd)), (''Floor_area'', FloatC (num_floor_area nd)),
             (''Location'', FloatC v),
             (''City_chattogram'', IntC (if ''City_chattogram'' = str_value (city d) then 1 else 0)),
             (''City_cumilla'', IntC (if ''City_cumilla'' = str_value (city d) then 1 else 0)),
             (''City_dhaka'', IntC (if ''City_dhaka'' = str_value (city d) then 1 else 0)),
             (''City_gazipur'', IntC (if ''City_gazipur'' = str_value (city d) then 1 else 0)),
             (''City_narayanganj-city'',
                IntC (if ''City_narayanganj-city'' = str_value (city d) then 1 else 0))]
            (s\<lparr>encoder_calls := encoder_calls s @ [StrC (str_value (location d))]\<rparr>))"
  by (simp add: run_frame_def select_input_data encode_location_def split: sum.splits)

lemma infer_calls:
  "model_calls (snd (infer mdl df s)) = model_calls s @ [df]"
  "encoder_calls (snd (infer mdl df s)) = encoder_calls s"
  "printed (snd (infer mdl df s)) = printed s"
  by (simp_all add: infer_def Let_def split: sum.splits list.splits)

lemma predict_valid:
  "validate (form_data f) = Inr nd \<Longrightarrow>
   predict enc mdl f s =
     (case run_model enc mdl (form_data f) nd s of
        (Inl e, s') \<Rightarrow> (Home (message PredictionFailed), s'\<lparr>printed := printed s' @ [e]\<rparr>)
      | (Inr pg, s') \<Rightarrow> (Prediction pg, s'))"
  by (simp add: predict_def)

lemma predict_invalid:
  "validate (form_data f) = Inl k \<Longrightarrow> predict enc mdl f s = (Home (message k), s)"
  by (simp add: predict_def)

lemma fst_predict_invalid:
  "validate (form_data f) = Inl k \<Longrightarrow> fst (predict enc mdl f s) = Home (message k)"
  by (simp add: predict_invalid)

lemma run_model_calls:
  "model_calls (snd (run_model enc mdl d nd s)) =
     (case enc (StrC (str_value (location d))) of
        Inl e \<Rightarrow> model_calls s
      | Inr v \<Rightarrow>
          model_calls s @
          [ [(''Bedrooms'', IntC (num_bedrooms nd)), (''Bathrooms'', IntC (num_bathrooms nd)),
            (''Floor_no'', IntC (num_floor_no nd)), (''Floor_area'', FloatC (num_floor_area nd)),
            (''Location'', FloatC v),
            (''City_chattogram'', IntC (if ''City_chattogram'' = str_value (city d) then 1 else 0)),
            (''City_cumilla'', IntC (if ''City_cumilla'' = str_value (city d) then 1 else 0)),
            (''City_dhaka'', IntC (if ''City_dhaka'' = str_value (city d) then 1 else 0)),
            (''City_gazipur'', IntC (if ''City_gazipur'' = str_value (city d) then 1 else 0)),
            (''City_narayanganj-city'',
               IntC (if ''City_narayanganj-city'' = str_value (city d) then 1 else 0))] ])"
proof (cases "enc (StrC (str_value (location d)))")
  case (Inl e)
  then show ?thesis
    by (simp add: run_model_def run_frame_input_data)
next
  case (Inr v)
  let ?s1 = "s\<lparr>encoder_calls := encoder_calls s @ [StrC (str_value (location d))]\<rparr>"
  let ?vec = "[(''Bedrooms'', IntC (num_bedrooms nd)), (''Bathrooms'', IntC (num_bathrooms nd)),
            (''Floor_no'', IntC (num_floor_no nd)), (''Floor_area'', FloatC (num_floor_area nd)),
            (''Location'', FloatC v),
            (''City_chattogram'', IntC (if ''City_chattogram'' = str_value (city d) then 1 else 0)),
            (''City_cumilla'', IntC (if ''City_cumilla'' = str_value (city d) then 1 else 0)),
            (''City_dhaka'', IntC (if ''City_dhaka'' = str_value (city d) then 1 else 0)),
            (''City_gazipur'', IntC (if ''City_gazipur'' = str_value (city d) then 1 else 0)),
            (''City_narayanganj-city'',
               IntC (if ''City_narayanganj-city'' = str_value (city d) then 1 else 0))]"
  obtain r s2 where i: "infer mdl ?vec ?s1 = (r, s2)"
    by (cases "infer mdl ?vec ?s1")
  have "model_calls s2 = model_calls s @ [?vec]"
    using infer_calls(1) [of mdl ?vec ?s1] i by simp
  moreover have "snd (run_model enc mdl d nd s) = s2"
    using Inr i by (cases r) (simp_all add: run_model_def run_frame_input_data)
  ultimately show ?thesis
    using Inr by simp
qed

lemma predict_state:
  assumes "validate (form_data f) = Inr nd"
  shows "model_calls (snd (predict enc mdl f s)) =
           model_calls (snd (run_model enc mdl (form_data f) nd s))"
    and "encoder_calls (snd (predict enc mdl f s)) =
           encoder_calls (snd (run_model enc mdl (form_data f) nd s))"
  by (simp_all add: predict_valid [OF assms] split: prod.splits sum.splits)


lemmas text_defs =
  title_def is_lower_def is_upper_def to_upper_def to_lower_def

lemmas format_defs =
  round_half_even_def group_thousands_def digit_char_def
  digits_of.simps [of "numeral m" for m] digits_of.simps [of 0] digits_of.simps [of 1]

lemma run_model_encoder_calls:
  "encoder_calls (snd (run_model enc mdl d nd s)) = encoder_calls s @ [StrC (str_value (location d))]"
proof (cases "enc (StrC (str_value (location d)))")
  case (Inl e)
  then show ?thesis
    by (simp add: run_model_def run_frame_input_data)
next
  case (Inr v)
  let ?s1 = "s\<lparr>encoder_calls := encoder_calls s @ [StrC (str_value (location d))]\<rparr>"
  obtain vec where r: "run_frame enc mdl (input_data d nd) s = infer mdl vec ?s1"
    using Inr by (simp add: run_frame_input_data)
  obtain p s2 where i: "infer mdl vec ?s1 = (p, s2)"
    by (cases "infer mdl vec ?s1")
  have "encoder_calls s2 = encoder_calls ?s1"
    using infer_calls(2) [of mdl vec ?s1] i by simp
  moreover have "snd (run_model enc mdl d nd s) = s2"
    using r i by (cases p) (simp_all add: run_model_def)
  ultimately show ?thesis
    by simp
qed

lemma fst_encode_location:
  "fst (encode_location enc df s) = fst (encode_location enc df s')"
  by (simp add: encode_location_def Let_def split: option.splits sum.splits)

lemma fst_infer: "fst (infer mdl df s) = fst (infer mdl df s')"
  by (simp add: infer_def Let_def split: sum.splits list.splits)

lemma fst_run_frame: "fst (run_frame enc mdl inp s) = fst (run_frame enc mdl inp s')"
proof (cases "select_columns column_order inp")
  case (Inl e)
  then show ?thesis
    by (simp add: run_frame_def)
next
  case (Inr df)
  obtain r1 s1 where a: "encode_location enc df s = (r1, s1)"
    by (cases "encode_location enc df s")
  obtain r2 s2 where b: "encode_location enc df s' = (r2, s2)"
    by (cases "encode_location enc df s'")
  have "r1 = r2"
    using fst_encode_location [of enc df s s'] a b by simp
  then show ?thesis
    using Inr a b fst_infer [of mdl _ s1 s2]
    by (cases r2) (simp_all add: run_frame_def)
qed

lemma fst_run_model: "fst (run_model enc mdl d nd s) = fst (run_model enc mdl d nd s')"
proof -
  obtain r1 s1 where a: "run_frame enc mdl (input_data d nd) s = (r1, s1)"
    by (cases "run_frame enc mdl (input_data d nd) s")
  obtain r2 s2 where b: "run_frame enc mdl (input_data d nd) s' = (r2, s2)"
    by (cases "run_frame enc mdl (input_data d nd) s'")
  have "r1 = r2"
    using fst_run_frame [of enc mdl "input_data d nd" s s'] a b by simp
  then show ?thesis
    using a b by (cases r2) (simp_all add: run_model_def)
qed

lemma fst_predict: "fst (predict enc mdl f s) = fst (predict enc mdl f s')"
proof (cases "validate (form_data f)")
  case (Inl k)
  then show ?thesis
    by (simp add: predict_invalid)
next
  case (Inr nd)
  obtain r1 s1 where a: "run_model enc mdl (form_data f) nd s = (r1, s1)"
    by (cases "run_model enc mdl (form_data f) nd s")
  obtain r2 s2 where b: "run_model enc mdl (form_data f) nd s' = (r2, s2)"
    by (cases "run_model enc mdl (form_data f) nd s'")
  have "r1 = r2"
    using fst_run_model [of enc mdl "form_data f" nd s s'] a b by simp
  then show ?thesis
    using a b by (cases r2) (simp_all add: predict_valid [OF Inr])
qed




lemma predict_dhaka:
  "predict stub_encoder stub_model dhaka_form s =
     (Prediction
        \<lparr> page_city = ''Dhaka'', page_location = ''Mirpur'', page_bedrooms = 3,
          page_bathrooms = 2, page_floor_area = Fin (2401 / 2), page_floor_no = 4,
          predicted_price = ''4,500,000.00'' \<rparr>,
      s\<lparr> encoder_calls := encoder_calls s @ [StrC ''Mirpur''],
         model_calls := model_calls s @
           [ [(''Bedrooms'', IntC 3), (''Bathrooms'', IntC 2), (''Floor_no'', IntC 4),
             (''Floor_area'', FloatC (Fin (2401 / 2))), (''Location'', FloatC (Fin 7)),
             (''City_chattogram'', IntC 0), (''City_cumilla'', IntC 0), (''City_dhaka'', IntC 1),
             (''City_gazipur'', IntC 0), (''City_narayanganj-city'', IntC 0)] ] \<rparr>)"
proof -
  have d: "form_data dhaka_form =
      \<lparr> city = Some ''City_dhaka'', location = Some ''Mirpur'', bedrooms = Some ''3'',
        bathrooms = Some ''2'', floor_area = Some ''1200.5'', floor_no = Some ''4'' \<rparr>"
    by (simp add: form_data_def dhaka_form_def)
  show ?thesis
    unfolding predict_valid [OF validate_dhaka] d
    by (simp add: run_model_def run_frame_input_data stub_encoder_def stub_model_def infer_def
        prediction_page_def format_defs text_defs)
qed

section \<open>The feature vector\<close>

text \<open>
  C1. For every request that passes validation, the row handed to the model has exactly
  ten columns, named in the order of the schema: the numbers of bedrooms, bathrooms and
  floor, the floor area, the encoded location, then the five city columns in the order of
  \<open>VALID_CITIES\<close>, each 1 for the city of the request and 0 otherwise, and these five add
  up to 1. The model is called once with this row when the encoder returns, and not at all
  when the encoder raises.
\<close>

theorem feature_vector_schema:
  assumes "validate (form_data f) = Inr nd"
  shows "case enc (StrC (str_value (f ''Location''))) of
           Inl e \<Rightarrow> model_calls (snd (predict enc mdl f s)) = model_calls s
         | Inr v \<Rightarrow>
             (\<exists>vec. model_calls (snd (predict enc mdl f s)) = model_calls s @ [vec]
                \<and> length vec = 10
                \<and> map fst vec = column_order
                \<and> take 5 vec =
                     [(''Bedrooms'', IntC (num_bedrooms nd)), (''Bathrooms'', IntC (num_bathrooms nd)),
                      (''Floor_no'', IntC (num_floor_no nd)),
                      (''Floor_area'', FloatC (num_floor_area nd)), (''Location'', FloatC v)]
                \<and> drop 5 vec =
                     map (\<lambda>k. (k, IntC (if k = str_value (f ''City'') then 1 else 0))) VALID_CITIES
                \<and> (\<Sum>k\<leftarrow>VALID_CITIES. if k = str_value (f ''City'') then (1::int) else 0) = 1)"
proof -
  have c: "str_value (f ''City'') \<in> set VALID_CITIES"
    using validate_Inr(2) [OF assms] by (simp add: form_data_simps)
  have m: "model_calls (snd (predict enc mdl f s)) =
      model_calls (snd (run_model enc mdl (form_data f) nd s))"
    by (rule predict_state(1) [OF assms])
  show ?thesis
  proof (cases "enc (StrC (str_value (f ''Location'')))")
    case (Inl e)
    then show ?thesis
      by (simp add: m run_model_calls form_data_simps)
  next
    case (Inr v)
    then show ?thesis
      using one_hot_sum [OF c]
      by (simp add: m run_model_calls form_data_simps column_order_def)
         (simp add: VALID_CITIES_def)
  qed
qed

theorem feature_vector_schema_witness:
  "validate (form_data dhaka_form) =
     Inr \<lparr> num_bedrooms = 3, num_bathrooms = 2, num_floor_area = Fin (2401 / 2), num_floor_no = 4 \<rparr>
   \<and> model_calls (snd (predict stub_encoder stub_model dhaka_form idle)) =
       [ [(''Bedrooms'', IntC 3), (''Bathrooms'', IntC 2), (''Floor_no'', IntC 4),
         (''Floor_area'', FloatC (Fin (2401 / 2))), (''Location'', FloatC (Fin 7)),
         (''City_chattogram'', IntC 0), (''City_cumilla'', IntC 0), (''City_dhaka'', IntC 1),
         (''City_gazipur'', IntC 0), (''City_narayanganj-city'', IntC 0)] ]"
proof -
  have "\<exists>vec. model_calls (snd (predict stub_encoder stub_model dhaka_form idle)) = model_calls idle @ [vec]
                \<and> length vec = 10
                \<and> map fst vec = column_order
                \<and> take 5 vec =
                     [(''Bedrooms'', IntC 3), (''Bathrooms'', IntC 2),
                      (''Floor_no'', IntC 4),
                      (''Floor_area'', FloatC (Fin (2401 / 2))), (''Location'', FloatC (Fin 7))]
                \<and> drop 5 vec =
                     map (\<lambda>k. (k, IntC (if k = ''City_dhaka'' then 1 else 0))) VALID_CITIES
                \<and> (\<Sum>k\<leftarrow>VALID_CITIES. if k = ''City_dhaka'' then (1::int) else 0) = 1"
    using feature_vector_schema [OF validate_dhaka, of stub_encoder stub_model idle]
    by (simp add: stub_encoder_def dhaka_form_def)
  then obtain vec where
    v: "model_calls (snd (predict stub_encoder stub_model dhaka_form idle)) = model_calls idle @ [vec]"
      "take 5 vec = [(''Bedrooms'', IntC 3), (''Bathrooms'', IntC 2), (''Floor_no'', IntC 4),
                      (''Floor_area'', FloatC (Fin (2401 / 2))), (''Location'', FloatC (Fin 7))]"
      "drop 5 vec = map (\<lambda>k. (k, IntC (if k = ''City_dhaka'' then 1 else 0))) VALID_CITIES"
    by blast
  have "vec = take 5 vec @ drop 5 vec"
    by simp
  then have "vec = [(''Bedrooms'', IntC 3), (''Bathrooms'', IntC 2), (''Floor_no'', IntC 4),
         (''Floor_area'', FloatC (Fin (2401 / 2))), (''Location'', FloatC (Fin 7)),
         (''City_chattogram'', IntC 0), (''City_cumilla'', IntC 0), (''City_dhaka'', IntC 1),
         (''City_gazipur'', IntC 0), (''City_narayanganj-city'', IntC 0)]"
    unfolding v(2,3) by (simp add: VALID_CITIES_def)
  then show ?thesis
    using v(1) validate_dhaka by (simp add: idle_def)
qed




section \<open>Validation\<close>

text \<open>
  C3. The checks run in the order presence, city, numeric conversion, numeric range, and
  the first one that fails decides the message: a request with a missing or empty field
  gets the message for missing fields whatever else is wrong with it; a request with all
  fields present and a city outside \<open>VALID_CITIES\<close> gets the message for an invalid city
  whatever its numeric fields hold; with a valid city, a field that does not convert gets
  the message for invalid numbers also when another field is not positive; and only when
  all four convert does a value that is not positive get the message for the range.
\<close>

theorem validation_order:
  "(\<not> all_present f \<longrightarrow> fst (predict enc mdl f s) = Home (message MissingField))
   \<and> (all_present f \<and> str_value (f ''City'') \<notin> set VALID_CITIES
        \<longrightarrow> fst (predict enc mdl f s) = Home (message InvalidCity))
   \<and> (all_present f \<and> str_value (f ''City'') \<in> set VALID_CITIES
        \<and> (int_py (str_value (f ''Bedrooms'')) = None \<or> int_py (str_value (f ''Bathrooms'')) = None
             \<or> float_py (str_value (f ''Floor_area'')) = None
             \<or> int_py (str_value (f ''Floor_no'')) = None)
        \<longrightarrow> fst (predict enc mdl f s) = Home (message InvalidNumber))
   \<and> (all_present f \<and> str_value (f ''City'') \<in> set VALID_CITIES
        \<and> int_py (str_value (f ''Bedrooms'')) = Some b \<and> int_py (str_value (f ''Bathrooms'')) = Some t
        \<and> float_py (str_value (f ''Floor_area'')) = Some a
        \<and> int_py (str_value (f ''Floor_no'')) = Some n
        \<and> (b \<le> 0 \<or> t \<le> 0 \<or> float_le_zero a \<or> n \<le> 0)
        \<longrightarrow> fst (predict enc mdl f s) = Home (message OutOfRange))"
proof (intro conjI impI)
  assume "\<not> all_present f"
  then have "validate (form_data f) = Inl MissingField"
    by (simp add: validate_form)
  then show "fst (predict enc mdl f s) = Home (message MissingField)"
    by (rule fst_predict_invalid)
next
  assume "all_present f \<and> str_value (f ''City'') \<notin> set VALID_CITIES"
  then have "validate (form_data f) = Inl InvalidCity"
    by (simp add: validate_form)
  then show "fst (predict enc mdl f s) = Home (message InvalidCity)"
    by (rule fst_predict_invalid)
next
  assume "all_present f \<and> str_value (f ''City'') \<in> set VALID_CITIES
        \<and> (int_py (str_value (f ''Bedrooms'')) = None \<or> int_py (str_value (f ''Bathrooms'')) = None
             \<or> float_py (str_value (f ''Floor_area'')) = None
             \<or> int_py (str_value (f ''Floor_no'')) = None)"
  then have "validate (form_data f) = Inl InvalidNumber"
    by (auto simp: validate_form convert_numeric_form split: option.splits)
  then show "fst (predict enc mdl f s) = Home (message InvalidNumber)"
    by (rule fst_predict_invalid)
next
  assume "all_present f \<and> str_value (f ''City'') \<in> set VALID_CITIES
        \<and> int_py (str_value (f ''Bedrooms'')) = Some b \<and> int_py (str_value (f ''Bathrooms'')) = Some t
        \<and> float_py (str_value (f ''Floor_area'')) = Some a
        \<and> int_py (str_value (f ''Floor_no'')) = Some n
        \<and> (b \<le> 0 \<or> t \<le> 0 \<or> float_le_zero a \<or> n \<le> 0)"
  then have "validate (form_data f) = Inl OutOfRange"
    by (simp add: validate_form convert_numeric_form any_not_positive_def)
  then show "fst (predict enc mdl f s) = Home (message OutOfRange)"
    by (rule fst_predict_invalid)
qed

theorem validation_order_witness:
  "fst (predict stub_encoder stub_model (dhaka_form(''Location'' := None, ''City'' \<mapsto> ''Sylhet'',
        ''Bedrooms'' \<mapsto> ''three'', ''Floor_no'' \<mapsto> ''0'')) idle) = Home ''Please fill out all fields.''
   \<and> fst (predict stub_encoder stub_model (dhaka_form(''City'' \<mapsto> ''Sylhet'',
        ''Bedrooms'' \<mapsto> ''three'', ''Floor_no'' \<mapsto> ''0'')) idle) = Home ''Invalid city selected.''
   \<and> fst (predict stub_encoder stub_model (dhaka_form(''Bedrooms'' \<mapsto> ''three'',
        ''Floor_no'' \<mapsto> ''0'')) idle) = Home ''Invalid numeric input. Please check your numbers.''
   \<and> fst (predict stub_encoder stub_model (dhaka_form(''Floor_no'' \<mapsto> ''0'')) idle)
        = Home ''All numeric values must be greater than 0.''"
proof (intro conjI)
  show "fst (predict stub_encoder stub_model (dhaka_form(''Location'' := None, ''City'' \<mapsto> ''Sylhet'',
        ''Bedrooms'' \<mapsto> ''three'', ''Floor_no'' \<mapsto> ''0'')) idle) = Home ''Please fill out all fields.''"
    using validation_order [of "dhaka_form(''Location'' := None, ''City'' \<mapsto> ''Sylhet'',
        ''Bedrooms'' \<mapsto> ''three'', ''Floor_no'' \<mapsto> ''0'')" stub_encoder stub_model idle]
    by (simp add: form_eval)
  show "fst (predict stub_encoder stub_model (dhaka_form(''City'' \<mapsto> ''Sylhet'',
        ''Bedrooms'' \<mapsto> ''three'', ''Floor_no'' \<mapsto> ''0'')) idle) = Home ''Invalid city selected.''"
    using validation_order [of "dhaka_form(''City'' \<mapsto> ''Sylhet'',
        ''Bedrooms'' \<mapsto> ''three'', ''Floor_no'' \<mapsto> ''0'')" stub_encoder stub_model idle]
    by (simp add: form_eval)
  show "fst (predict stub_encoder stub_model (dhaka_form(''Bedrooms'' \<mapsto> ''three'',
        ''Floor_no'' \<mapsto> ''0'')) idle) = Home ''Invalid numeric input. Please check your numbers.''"
    using validation_order [of "dhaka_form(''Bedrooms'' \<mapsto> ''three'',
        ''Floor_no'' \<mapsto> ''0'')" stub_encoder stub_model idle]
    by (simp add: form_eval parse_defs)
  show "fst (predict stub_encoder stub_model (dhaka_form(''Floor_no'' \<mapsto> ''0'')) idle)
        = Home ''All numeric values must be greater than 0.''"
    using validation_order [of "dhaka_form(''Floor_no'' \<mapsto> ''0'')" stub_encoder stub_model idle
        3 2 "Fin (2401 / 2)" 0]
    by (simp add: form_eval parse_defs)
qed

text \<open>
  C4. When all six fields are present, the city is valid and the four numeric fields
  convert, a converted value that is not positive gives the message for the range and not
  the one for invalid numbers. The request with \<open>-1\<close> bedrooms is the witness.
\<close>

theorem nonpositive_is_out_of_range:
  assumes "all_present f" and "str_value (f ''City'') \<in> set VALID_CITIES"
    and "int_py (str_value (f ''Bedrooms'')) = Some b"
    and "int_py (str_value (f ''Bathrooms'')) = Some t"
    and "float_py (str_value (f ''Floor_area'')) = Some a"
    and "int_py (str_value (f ''Floor_no'')) = Some n"
    and "b \<le> 0 \<or> t \<le> 0 \<or> float_le_zero a \<or> n \<le> 0"
  shows "fst (predict enc mdl f s) = Home (message OutOfRange)
         \<and> fst (predict enc mdl f s) \<noteq> Home (message InvalidNumber)"
proof -
  have "validate (form_data f) = Inl OutOfRange"
    using assms by (simp add: validate_form convert_numeric_form any_not_positive_def)
  then have "fst (predict enc mdl f s) = Home (message OutOfRange)"
    by (rule fst_predict_invalid)
  then show ?thesis
    by simp
qed

theorem nonpositive_is_out_of_range_witness:
  "int_py ''-1'' = Some (- 1)
   \<and> fst (predict stub_encoder stub_model (dhaka_form(''Bedrooms'' \<mapsto> ''-1'')) idle)
       = Home ''All numeric values must be greater than 0.''
   \<and> fst (predict stub_encoder stub_model (dhaka_form(''Bedrooms'' \<mapsto> ''-1'')) idle)
       \<noteq> Home ''Invalid numeric input. Please check your numbers.''"
  using nonpositive_is_out_of_range [of "dhaka_form(''Bedrooms'' \<mapsto> ''-1'')" "- 1" 2
      "Fin (2401 / 2)" 4 stub_encoder stub_model idle]
  by (simp add: form_eval parse_defs)

text \<open>
  C5. For each of the five cities of \<open>VALID_CITIES\<close>, the city features are the five
  city names in their fixed order, with 1 at the position of the city and 0 at the four
  other positions.
\<close>

theorem city_one_hot:
  assumes "i < 5"
  shows "length VALID_CITIES = 5
         \<and> map fst (city_features (VALID_CITIES ! i)) = VALID_CITIES
         \<and> map snd (city_features (VALID_CITIES ! i)) = (replicate 5 (IntC 0))[i := IntC 1]"
proof -
  have "i = 0 \<or> i = 1 \<or> i = 2 \<or> i = 3 \<or> i = 4"
    using assms by arith
  then show ?thesis
    by (auto simp: city_features_def VALID_CITIES_def numeral_eq_Suc)
qed

theorem city_one_hot_witness:
  "(2::nat) < 5 \<and> VALID_CITIES ! 2 = ''City_dhaka''
   \<and> map snd (city_features ''City_dhaka'') = [IntC 0, IntC 0, IntC 1, IntC 0, IntC 0]"
  using city_one_hot [of 2] by (simp add: VALID_CITIES_def numeral_eq_Suc)

text \<open>
  C6. When one of the six fields is absent or empty, the handler answers with the message
  for missing fields and leaves the state as it was: neither the encoder nor the model is
  called, and nothing is printed.
\<close>

theorem missing_field_stops:
  assumes "k \<in> set field_names" and "f k = None \<or> f k = Some []"
  shows "predict enc mdl f s = (Home (message MissingField), s)"
proof -
  have "\<not> present f k"
    using assms(2) by (auto simp: present_def)
  then have "\<not> all_present f"
    using assms(1) by (auto simp: all_present_def list_all_iff)
  then have "validate (form_data f) = Inl MissingField"
    by (simp add: validate_form)
  then show ?thesis
    by (rule predict_invalid)
qed

theorem missing_field_stops_witness:
  "''Location'' \<in> set field_names
   \<and> (dhaka_form(''Location'' := None)) ''Location'' = None
   \<and> fst (predict stub_encoder stub_model (dhaka_form(''Location'' := None)) idle)
       = Home ''Please fill out all fields.''
   \<and> length (model_calls (snd (predict stub_encoder stub_model (dhaka_form(''Location'' := None)) idle))) = 0
   \<and> length (encoder_calls (snd (predict stub_encoder stub_model (dhaka_form(''Location'' := None)) idle))) = 0"
  using missing_field_stops [of "''Location''" "dhaka_form(''Location'' := None)"
      stub_encoder stub_model idle]
  by (simp add: field_names_def idle_def)

text \<open>
  C10. The presence check accepts every non-empty string. When all six fields are present,
  whatever the location holds (a single blank, say), the answer is not the message for
  missing fields, no other check looks at the location, and when the remaining checks
  pass, the location reaches the encoder as it was sent.
\<close>

theorem nonempty_location_forwarded:
  assumes "all_present f" and "f ''Location'' = Some l"
  shows "fst (predict enc mdl f s) \<noteq> Home (message MissingField)
         \<and> (case validate (form_data f) of
               Inl k \<Rightarrow> k \<noteq> MissingField
             | Inr nd \<Rightarrow> encoder_calls (snd (predict enc mdl f s)) = encoder_calls s @ [StrC l])"
proof (cases "validate (form_data f)")
  case (Inl k)
  then have "k \<noteq> MissingField"
    using assms(1) by (auto simp: validate_form split: if_splits option.splits)
  then show ?thesis
    using Inl by (cases k) (simp_all add: predict_invalid)
next
  case (Inr nd)
  have "encoder_calls (snd (predict enc mdl f s)) = encoder_calls s @ [StrC l]"
    using assms(2)
    by (simp add: predict_state(2) [OF Inr] run_model_encoder_calls form_data_simps)
  moreover have "fst (predict enc mdl f s) \<noteq> Home (message MissingField)"
    by (simp add: predict_valid [OF Inr] split: prod.splits sum.splits)
  ultimately show ?thesis
    using Inr by simp
qed

theorem nonempty_location_forwarded_witness:
  "all_present (dhaka_form(''Location'' \<mapsto> '' ''))
   \<and> fst (predict stub_encoder stub_model (dhaka_form(''Location'' \<mapsto> '' '')) idle)
        \<noteq> Home ''Please fill out all fields.''
   \<and> encoder_calls (snd (predict stub_encoder stub_model (dhaka_form(''Location'' \<mapsto> '' '')) idle))
        = [StrC '' '']"
proof -
  have v: "validate (form_data (dhaka_form(''Location'' \<mapsto> '' ''))) =
     Inr \<lparr> num_bedrooms = 3, num_bathrooms = 2, num_floor_area = Fin (2401 / 2), num_floor_no = 4 \<rparr>"
    by (simp add: validate_def form_data_def dhaka_form_def data_values_def VALID_CITIES_def
        convert_numeric_def any_not_positive_def parse_defs)
  have p: "all_present (dhaka_form(''Location'' \<mapsto> '' ''))"
    by (simp add: form_eval)
  show ?thesis
    using nonempty_location_forwarded [OF p, of "'' ''" stub_encoder stub_model idle] p
    by (simp add: v idle_def)
qed

section \<open>The whole request\<close>

text \<open>
  C7. The request for Dhaka, with the encoder that answers 7.0 and the model that answers
  4500000.0, gives the result page with the price \<open>4,500,000.00\<close> and the city
  \<open>Dhaka\<close>. The price text is \<^const>\<open>format_price\<close> of the predicted value and of
  nothing else.
\<close>

theorem dhaka_scenario:
  "fst (predict stub_encoder stub_model dhaka_form s) =
     Prediction
        \<lparr> page_city = ''Dhaka'', page_location = ''Mirpur'', page_bedrooms = 3,
          page_bathrooms = 2, page_floor_area = Fin (2401 / 2), page_floor_no = 4,
          predicted_price = ''4,500,000.00'' \<rparr>"
  by (simp add: predict_dhaka)




text \<open>
  C9. The page rendered for a request depends on the form, the encoder and the model
  only, not on the requests handled before: a second run on the same input, right after
  the first or from any other state, renders the same page.
\<close>

theorem predict_deterministic:
  "fst (predict enc mdl f (snd (predict enc mdl f s))) = fst (predict enc mdl f s)
   \<and> fst (predict enc mdl f s) = fst (predict enc mdl f s')"
  using fst_predict [of enc mdl f "snd (predict enc mdl f s)" s] fst_predict [of enc mdl f s s']
  by simp

end
